theory Spec2Isabelle
  imports Complex_Main
begin

section \<open>cputemp2rgb: CPU temperature to RGB colour\<close>

text \<open>
  A shallow embedding of \<^verbatim>\<open>cputemp2rgb.py\<close>. The program computes with Python
  floats; the embedding idealises them as the real numbers, so that \<open>log\<close> is \<^const>\<open>ln\<close>
  and \<open>**\<close> on a positive base is \<^const>\<open>powr\<close>. Rounding of the floating-point
  operations is not modelled.
\<close>

subsection \<open>The sensor reader\<close>

text \<open>
  \<^verbatim>\<open>psutil.sensors_temperatures()\<close> returns a dict from a chip name to a list of
  \<^verbatim>\<open>shwtemp(label, current, high, critical)\<close> named tuples, where \<open>high\<close> and
  \<open>critical\<close> may be \<open>None\<close>. The dict is modelled as an association list in the
  order in which \<^verbatim>\<open>temps.items()\<close> iterates.
\<close>

record shwtemp =
  label :: string
  current :: real
  high :: "real option"
  critical :: "real option"

type_synonym sensors = "(string \<times> shwtemp list) list"

datatype error = SystemExit string

text \<open>
  The inner loop of \<open>cputemp\<close> (lines 105-107): the running maximum \<open>temp\<close> is
  replaced whenever an entry's current reading is strictly larger.
\<close>

fun scan_entries :: "shwtemp list \<Rightarrow> real \<Rightarrow> real" where
  "scan_entries [] temp = temp"
| "scan_entries (entry # entries) temp =
     scan_entries entries (if current entry > temp then current entry else temp)"

text \<open>The outer loop (lines 103-107): only the two known chip names are scanned.\<close>

fun scan_groups :: "sensors \<Rightarrow> real \<Rightarrow> real" where
  "scan_groups [] temp = temp"
| "scan_groups ((name, entries) # rest) temp =
     scan_groups rest
       (if name = ''coretemp'' \<or> name = ''k10temp'' then scan_entries entries temp else temp)"

definition cputemp :: "sensors \<Rightarrow> error + real" where
  "cputemp temps =
     (if temps = [] then Inl (SystemExit ''Unable to read temperature sensors!'')
      else Inr (scan_groups temps 0.0))"

text \<open>
  The specification's wording, for comparison with \<open>cputemp\<close>: all \<open>current\<close>
  readings reported by the groups named \<open>coretemp\<close> or \<open>k10temp\<close>, in the order
  of the report. It is not part of the program.
\<close>

definition spec_matching_currents :: "sensors \<Rightarrow> real list" where
  "spec_matching_currents temps =
     concat (map (\<lambda>(name, entries).
                    if name = ''coretemp'' \<or> name = ''k10temp'' then map current entries else [])
                 temps)"

subsection \<open>The colour model\<close>

text \<open>Python's \<open>int\<close> on a float truncates toward zero.\<close>

definition py_int :: "real \<Rightarrow> int" where
  "py_int x = (if 0 \<le> x then \<lfloor>x\<rfloor> else \<lceil>x\<rceil>)"

definition c8bit :: "real \<Rightarrow> int" where
  "c8bit num = (if num < 0 then 0 else if num > 255 then 255 else py_int num)"

definition r :: "real \<Rightarrow> int" where
  "r temp =
     (let temp = (if temp \<le> 0.0 then 0.1 else temp);
          red = (if temp \<le> 66.0 then 255
                 else 329.698727446 * ((temp - 60.0) powr (- 0.1332047592)))
      in c8bit red)"

definition g :: "real \<Rightarrow> int" where
  "g temp =
     (let temp = (if temp \<le> 0.0 then 0.1 else temp);
          green = (if temp \<le> 66.0 then 99.4708025861 * ln temp - 161.1195681661
                   else 288.1221695283 * ((temp - 60) powr (- 0.0755148492)))
      in c8bit green)"

definition b :: "real \<Rightarrow> int" where
  "b temp =
     (let temp = (if temp \<le> 0.0 then 0.1 else temp);
          blue = (if temp \<ge> 66 then 255
                  else if temp \<le> 19 then 0
                  else 138.5177312231 * ln (temp - 10) - 305.0447927307)
      in c8bit blue)"

text \<open>
  The colour triple that line 202 builds from the three channel functions:
  \<^verbatim>\<open>RGBColor(r(output), g(output), b(output))\<close>.
\<close>

definition ColorModel :: "real \<Rightarrow> int \<times> int \<times> int" where
  "ColorModel output = (r output, g output, b output)"

subsection \<open>The thermal loop\<close>

definition COLORSHIFT :: real where
  "COLORSHIFT = 0"

text \<open>
  The two locals of \<open>cputemp2rgb\<close> that live across iterations of \<^verbatim>\<open>while True\<close>.
\<close>

record loop_state =
  temp :: real
  offset :: real

text \<open>
  Lines 192-193: \<open>offset = 20\<close>, then the first sample; \<open>cputemp\<close> exits the
  process when no sensor group is reported.
\<close>

definition init :: "sensors \<Rightarrow> error + loop_state" where
  "init temps =
     (case cputemp temps of
        Inl e \<Rightarrow> Inl e
      | Inr t \<Rightarrow> Inr \<lparr>temp = t, offset = 20\<rparr>)"

text \<open>
  One iteration of the loop body (lines 195-202), given what the sensor library reports
  at the call of \<open>cputemp\<close> in line 199. The result is the state carried to the next
  iteration and the colour passed to \<^verbatim>\<open>motherboard.set_color\<close>.
\<close>

definition tick :: "loop_state \<Rightarrow> sensors \<Rightarrow> error + loop_state \<times> (int \<times> int \<times> int)" where
  "tick st temps =
     (let offset' = (if temp st < offset st then temp st else offset st)
      in case cputemp temps of
           Inl e \<Rightarrow> Inl e
         | Inr raw \<Rightarrow>
             (let temp' = (temp st + raw) / 2.0;
                  output = temp' - offset' + COLORSHIFT
              in Inr (\<lparr>temp = temp', offset = offset'\<rparr>, ColorModel output)))"

text \<open>
  The loop over a finite prefix of the sensor reports: the states after each completed
  iteration, in order. The loop has no exit of its own; it ends only when \<open>cputemp\<close>
  exits the process.
\<close>

fun run :: "loop_state \<Rightarrow> sensors list \<Rightarrow> loop_state list" where
  "run st [] = []"
| "run st (temps # rest) =
     (case tick st temps of
        Inl e \<Rightarrow> []
      | Inr (st', colour) \<Rightarrow> st' # run st' rest)"

section \<open>Properties of the clamp\<close>

lemma c8bit_range: "0 \<le> c8bit num \<and> c8bit num \<le> 255"
  by (simp add: c8bit_def py_int_def floor_le_iff)

lemma c8bit_mono: "x \<le> y \<Longrightarrow> c8bit x \<le> c8bit y"
proof -
  assume xy: "x \<le> y"
  then have fl: "\<lfloor>x\<rfloor> \<le> \<lfloor>y\<rfloor>" by (rule floor_mono)
  have lo: "0 \<le> y \<Longrightarrow> 0 \<le> \<lfloor>y\<rfloor>" by simp
  have hi: "x \<le> 255 \<Longrightarrow> \<lfloor>x\<rfloor> \<le> 255" by (simp add: floor_le_iff)
  show ?thesis
    using xy fl lo hi by (simp add: c8bit_def py_int_def)
qed

lemma c8bit_255: "c8bit 255 = 255"
  by (simp add: c8bit_def py_int_def)

lemma c8bit_0: "c8bit 0 = 0"
  by (simp add: c8bit_def py_int_def)

lemma c8bit_eq_255_iff: "c8bit v = 255 \<longleftrightarrow> 255 \<le> v"
proof -
  have "v \<le> 255 \<Longrightarrow> \<lfloor>v\<rfloor> = 255 \<longleftrightarrow> 255 \<le> v"
    by (auto simp: floor_eq_iff)
  then show ?thesis
    by (auto simp: c8bit_def py_int_def)
qed

text \<open>
  Claim C7. \<open>c8bit num\<close> is 0 for negative \<open>num\<close>, 255 for \<open>num\<close> above 255, and
  otherwise \<open>num\<close> truncated toward zero, an integer between 0 and 255: it is the floor
  of the non-negative \<open>num\<close>, its magnitude does not exceed that of \<open>num\<close> and is less
  than one below it. In particular \<open>c8bit 255.999 = 255\<close> and \<open>c8bit (-0.5) = 0\<close>.
\<close>

theorem c8bit_clamp:
  "(num < 0 \<longrightarrow> c8bit num = 0) \<and>
   (num > 255 \<longrightarrow> c8bit num = 255) \<and>
   (0 \<le> num \<and> num \<le> 255 \<longrightarrow>
      c8bit num = \<lfloor>num\<rfloor> \<and> 0 \<le> c8bit num \<and> c8bit num \<le> 255 \<and>
      \<bar>real_of_int (c8bit num)\<bar> \<le> \<bar>num\<bar> \<and> \<bar>num\<bar> < \<bar>real_of_int (c8bit num)\<bar> + 1) \<and>
   c8bit 255.999 = 255 \<and> c8bit (- 0.5) = 0"
  by (auto simp: c8bit_def py_int_def floor_le_iff)

theorem c8bit_clamp_witness:
  "c8bit (- 3) = 0 \<and> c8bit 300 = 255 \<and> c8bit 100.7 = 100 \<and> c8bit 255 = 255 \<and> c8bit 0 = 0"
proof -
  have f: "\<lfloor>100.7 :: real\<rfloor> = 100" by linarith
  show ?thesis
    using c8bit_clamp [of "- 3"] c8bit_clamp [of 300] c8bit_clamp [of "100.7"]
      c8bit_clamp [of 255] c8bit_clamp [of 0] f
    by simp
qed

section \<open>Properties of the colour model\<close>

lemma r_low: "x \<le> 66 \<Longrightarrow> r x = 255"
  by (simp add: r_def c8bit_255)

lemma r_high: "66 < x \<Longrightarrow> r x = c8bit (329.698727446 * ((x - 60) powr (- 0.1332047592)))"
  by (simp add: r_def)

lemma b_high: "66 \<le> x \<Longrightarrow> b x = 255"
  by (simp add: b_def c8bit_255)

lemma b_low: "x \<le> 19 \<Longrightarrow> b x = 0"
  by (simp add: b_def c8bit_0)

lemma b_mid:
  "19 < x \<Longrightarrow> x < 66 \<Longrightarrow> b x = c8bit (138.5177312231 * ln (x - 10) - 305.0447927307)"
  by (simp add: b_def)

lemma r_le_255: "r x \<le> 255"
  by (simp add: r_def Let_def c8bit_range)

lemma b_le_255: "b x \<le> 255"
  by (simp add: b_def Let_def c8bit_range)

lemma b_ge_0: "0 \<le> b x"
  by (simp add: b_def Let_def c8bit_range)

text \<open>
  Claim C5. For every real input, each of the three channels of \<open>ColorModel\<close> is an
  integer between 0 and 255; the inputs the specification lists are instances.
\<close>

theorem ColorModel_range: "ColorModel x \<in> {0..255} \<times> {0..255} \<times> {0..255}"
  by (simp add: ColorModel_def r_def g_def b_def Let_def c8bit_range)

theorem ColorModel_range_witness:
  "ColorModel (- 1000) \<in> {0..255} \<times> {0..255} \<times> {0..255} \<and>
   ColorModel (- 0.001) \<in> {0..255} \<times> {0..255} \<times> {0..255} \<and>
   ColorModel 0 \<in> {0..255} \<times> {0..255} \<times> {0..255} \<and>
   ColorModel 0.1 \<in> {0..255} \<times> {0..255} \<times> {0..255} \<and>
   ColorModel 18.999 \<in> {0..255} \<times> {0..255} \<times> {0..255} \<and>
   ColorModel 19 \<in> {0..255} \<times> {0..255} \<times> {0..255} \<and>
   ColorModel 19.001 \<in> {0..255} \<times> {0..255} \<times> {0..255} \<and>
   ColorModel 65.999 \<in> {0..255} \<times> {0..255} \<times> {0..255} \<and>
   ColorModel 66 \<in> {0..255} \<times> {0..255} \<times> {0..255} \<and>
   ColorModel 66.001 \<in> {0..255} \<times> {0..255} \<times> {0..255} \<and>
   ColorModel 10000 \<in> {0..255} \<times> {0..255} \<times> {0..255}"
  by (intro conjI ColorModel_range)

text \<open>
  Claim C6. The substitution of 0.1 for an input that is not positive comes first in each
  channel function, before any threshold test and any formula: every input \<open>x \<le> 0\<close>
  gives the colour of 0.1, channel by channel. At \<open>x = 0\<close> this is
  \<open>ColorModel 0 = ColorModel 0.1\<close>.
\<close>

theorem floor_substitution:
  "x \<le> 0 \<Longrightarrow> ColorModel x = ColorModel 0.1 \<and> r x = r 0.1 \<and> g x = g 0.1 \<and> b x = b 0.1"
  by (simp add: ColorModel_def r_def g_def b_def)

theorem floor_substitution_witness:
  "ColorModel 0 = ColorModel 0.1 \<and> r 0 = r 0.1 \<and> g 0 = g 0.1 \<and> b 0 = b 0.1"
  using floor_substitution [of 0] by simp

text \<open>
  Claim C9. The red channel never increases with its input: \<open>x1 \<le> x2\<close> gives
  \<open>r x2 \<le> r x1\<close>. Up to 66 it is 255; above 66 the formula decreases, and the clamp
  keeps the order.
\<close>

theorem r_antimono: "x1 \<le> x2 \<Longrightarrow> r x2 \<le> r x1"
proof (cases "x1 \<le> 66")
  case True
  then show ?thesis by (simp add: r_low r_le_255)
next
  case False
  assume le: "x1 \<le> x2"
  from False le have h1: "66 < x1" and h2: "66 < x2" by simp_all
  have "(x2 - 60) powr (- 0.1332047592) \<le> (x1 - 60) powr (- 0.1332047592)"
    using h1 le by (intro powr_mono2') simp_all
  then have "329.698727446 * ((x2 - 60) powr (- 0.1332047592))
      \<le> 329.698727446 * ((x1 - 60) powr (- 0.1332047592))"
    by simp
  then show ?thesis
    unfolding r_high [OF h1] r_high [OF h2] by (rule c8bit_mono)
qed

theorem r_antimono_witness:
  "(50 :: real) \<le> 100 \<and> r 100 \<le> r 50 \<and> r 50 = 255 \<and> r 200 \<le> r 100"
  using r_antimono [of 50 100] r_antimono [of 100 200] by (simp add: r_low)

text \<open>
  Claim C10. The blue channel never decreases with its input: \<open>x1 \<le> x2\<close> gives
  \<open>b x1 \<le> b x2\<close>. It is 0 up to 19, the clamp of an increasing logarithm between 19
  and 66, and 255 from 66 on.
\<close>

theorem b_mono: "x1 \<le> x2 \<Longrightarrow> b x1 \<le> b x2"
proof -
  assume le: "x1 \<le> x2"
  consider "66 \<le> x2" | "x1 \<le> 19" | "19 < x1" "x2 < 66" by linarith
  then show ?thesis
  proof cases
    case 1
    then show ?thesis by (simp add: b_high b_le_255)
  next
    case 2
    then show ?thesis by (simp add: b_low b_ge_0)
  next
    case 3
    with le have m1: "19 < x1" "x1 < 66" and m2: "19 < x2" "x2 < 66" by simp_all
    have "ln (x1 - 10) \<le> ln (x2 - 10)"
      using m1 le by simp
    then have "138.5177312231 * ln (x1 - 10) - 305.0447927307
        \<le> 138.5177312231 * ln (x2 - 10) - 305.0447927307"
      by simp
    then show ?thesis
      unfolding b_mid [OF m1] b_mid [OF m2] by (rule c8bit_mono)
  qed
qed

theorem b_mono_witness:
  "(10 :: real) \<le> 30 \<and> b 10 \<le> b 30 \<and> b 10 = 0 \<and> b 30 \<le> b 50 \<and> b 50 \<le> b 70 \<and> b 70 = 255"
  using b_mono [of 10 30] b_mono [of 30 50] b_mono [of 50 70] by (simp add: b_low b_high)

subsection \<open>The branch above 66\<close>

text \<open>
  A bound on the red formula at 100: since \<open>0.1332047592 \<ge> 1/8\<close> and
  \<open>1.3 ^ 8 < 40\<close>, the power \<open>40 powr 0.1332047592\<close> exceeds 1.3, and
  \<open>329.698727446 / 1.3 < 254\<close>.
\<close>

lemma powr_40_bound: "(13 / 10 :: real) < 40 powr 0.1332047592"
proof -
  have "(13 / 10 :: real) ^ 8 < 40" by (simp add: power_divide)
  also have "(40 :: real) = (40 powr (1 / 8)) ^ 8"
    by (simp add: powr_realpow [symmetric] powr_powr)
  finally have "(13 / 10 :: real) < 40 powr (1 / 8)"
    by (rule power_less_imp_less_base) simp
  also have "(40 :: real) powr (1 / 8) \<le> 40 powr 0.1332047592"
    by (rule powr_mono) simp_all
  finally show ?thesis .
qed

lemma red_100_bound:
  "0 \<le> 329.698727446 * (40 powr (- 0.1332047592) :: real) \<and>
   329.698727446 * (40 powr (- 0.1332047592) :: real) < 254"
proof -
  let ?p = "40 powr 0.1332047592 :: real"
  have "329.698727446 / ?p < 329.698727446 / (13 / 10)"
    using powr_40_bound by (intro divide_strict_left_mono) simp_all
  also have "\<dots> < (254 :: real)" by simp
  finally have "329.698727446 / ?p < 254" .
  moreover have "0 \<le> 329.698727446 / ?p" by simp
  ultimately show ?thesis by (simp add: powr_minus_divide)
qed

lemma r_100: "r 100 \<le> 253"
proof -
  let ?v = "329.698727446 * (40 powr (- 0.1332047592) :: real)"
  have eq: "r 100 = c8bit ?v" by (simp add: r_def)
  from red_100_bound have "c8bit ?v = \<lfloor>?v\<rfloor>"
    by (simp add: c8bit_def py_int_def)
  moreover from red_100_bound have "\<lfloor>?v\<rfloor> < 254"
    by (simp add: floor_less_iff)
  ultimately show ?thesis using eq by simp
qed

text \<open>
  Claim C1, as amended. For every input \<open>x \<ge> 66\<close> the blue channel is 255. The red
  channel is 255 at 66, and above 66 exactly as long as the formula
  \<open>329.698727446 * (x - 60) powr (-0.1332047592)\<close> is still at least 255; beyond that it
  is lower.
\<close>

theorem upper_branch:
  "66 \<le> x \<Longrightarrow>
     b x = 255 \<and>
     (r x = 255 \<longleftrightarrow> x = 66 \<or> 255 \<le> 329.698727446 * ((x - 60) powr (- 0.1332047592)))"
proof (cases "x = 66")
  case True
  then show ?thesis by (simp add: b_high r_low)
next
  case False
  assume "66 \<le> x"
  with False have h: "66 < x" by simp
  show ?thesis
    using h False by (simp add: b_high r_high c8bit_eq_255_iff)
qed

theorem upper_branch_witness:
  "(66 :: real) \<le> 66 \<and> b 66 = 255 \<and> r 66 = 255 \<and> (66 :: real) \<le> 100 \<and> b 100 = 255"
  using upper_branch [of 66] upper_branch [of 100] by simp

text \<open>
  Claim C1 as the specification states it fails at 100: there the red channel is at most
  253.
\<close>

theorem upper_branch_counterexample: "\<not> (r 100 = 255 \<and> b 100 = 255)"
  using r_100 by simp

section \<open>Properties of the sensor reader\<close>

lemma scan_entries_Max:
  "scan_entries entries t = Max (insert t (set (map current entries)))"
proof (induction entries arbitrary: t)
  case Nil
  show ?case by simp
next
  case (Cons e es)
  have fin: "finite (set (map current es))" by simp
  have "Max (insert t (insert (current e) (set (map current es))))
      = Max (insert (max t (current e)) (set (map current es)))"
  proof (cases "set (map current es) = {}")
    case True
    then show ?thesis by (simp add: max.commute)
  next
    case False
    then show ?thesis using fin by (simp add: max.assoc)
  qed
  moreover have "(if t < current e then current e else t) = max t (current e)"
    by (simp add: max_def)
  ultimately show ?case using Cons.IH by simp
qed

lemma scan_groups_Max:
  "scan_groups temps t = Max (insert t (set (spec_matching_currents temps)))"
proof (induction temps arbitrary: t)
  case Nil
  show ?case by (simp add: spec_matching_currents_def)
next
  case (Cons p rest)
  obtain name entries where p: "p = (name, entries)" by (cases p)
  show ?case
  proof (cases "name = ''coretemp'' \<or> name = ''k10temp''")
    case False
    then show ?thesis
      using Cons.IH [of t] by (simp add: p spec_matching_currents_def)
  next
    case True
    let ?A = "set (map current entries)" and ?B = "set (spec_matching_currents rest)"
    have mc: "set (spec_matching_currents (p # rest)) = ?A \<union> ?B"
      using True by (auto simp add: p spec_matching_currents_def)
    have "scan_groups (p # rest) t = Max (insert (Max (insert t ?A)) ?B)"
      using True Cons.IH [of "scan_entries entries t"]
      by (simp add: p scan_entries_Max del: set_map)
    also have "\<dots> = Max (insert t ?A \<union> ?B)"
    proof (cases "?B = {}")
      case True
      then show ?thesis by simp
    next
      case False
      have "Max (insert t ?A \<union> ?B) = max (Max (insert t ?A)) (Max ?B)"
        using False by (intro Max_Un) simp_all
      moreover have "Max (insert (Max (insert t ?A)) ?B) = max (Max (insert t ?A)) (Max ?B)"
        using False by (intro Max_insert) simp_all
      ultimately show ?thesis by simp
    qed
    also have "insert t ?A \<union> ?B = insert t (?A \<union> ?B)" by simp
    finally show ?thesis by (simp only: mc)
  qed
qed

text \<open>
  Claim C2. The reader is meant to return the highest \<open>current\<close> reading of the groups
  named \<open>coretemp\<close> or \<open>k10temp\<close> (the docstring of \<open>cputemp\<close>: the highest value of
  multiple CPUs/cores is returned). The code does not when every such reading is negative:
  the running maximum starts at 0.0 and is replaced only by a strictly larger reading. For
  a report with the single \<open>coretemp\<close> reading -5, the matching readings are \<open>[-5]\<close>,
  the code returns 0.0, and that is not their maximum.
\<close>

theorem cputemp_negative_reading:
  "spec_matching_currents
     [(''coretemp'', [\<lparr>label = ''Core 0'', current = - 5, high = None, critical = None\<rparr>])]
     = [- 5] \<and>
   cputemp [(''coretemp'', [\<lparr>label = ''Core 0'', current = - 5, high = None, critical = None\<rparr>])]
     = Inr 0 \<and>
   cputemp [(''coretemp'', [\<lparr>label = ''Core 0'', current = - 5, high = None, critical = None\<rparr>])]
     \<noteq> Inr (Max (set (spec_matching_currents
          [(''coretemp'',
              [\<lparr>label = ''Core 0'', current = - 5, high = None, critical = None\<rparr>])])))"
  by (simp add: cputemp_def spec_matching_currents_def)

text \<open>
  Claim C8. \<open>cputemp\<close> never returns a negative value: on a non-empty report it returns
  a value, and whatever it returns is at least 0.0, also when readings are negative.
\<close>

theorem cputemp_nonneg:
  "(temps \<noteq> [] \<longrightarrow> (\<exists>t. cputemp temps = Inr t)) \<and> (\<forall>t. cputemp temps = Inr t \<longrightarrow> 0 \<le> t)"
  by (auto simp add: cputemp_def scan_groups_Max)

theorem cputemp_nonneg_witness:
  "cputemp [(''coretemp'',
               [\<lparr>label = ''Core 0'', current = - 5, high = None, critical = None\<rparr>,
                \<lparr>label = ''Core 1'', current = - 2, high = None, critical = None\<rparr>])]
     = Inr 0 \<and>
   (\<exists>t. cputemp [(''coretemp'',
               [\<lparr>label = ''Core 0'', current = - 5, high = None, critical = None\<rparr>,
                \<lparr>label = ''Core 1'', current = - 2, high = None, critical = None\<rparr>])]
          = Inr t \<and> 0 \<le> t)"
  using cputemp_nonneg [of
      "[(''coretemp'',
           [\<lparr>label = ''Core 0'', current = - 5, high = None, critical = None\<rparr>,
            \<lparr>label = ''Core 1'', current = - 2, high = None, critical = None\<rparr>])]"]
  by (simp add: cputemp_def)

section \<open>Properties of the thermal loop\<close>

lemma tick_Inr:
  "cputemp temps = Inr raw \<Longrightarrow>
     tick st temps =
       Inr (\<lparr>temp = (temp st + raw) / 2, offset = min (offset st) (temp st)\<rparr>,
            ColorModel ((temp st + raw) / 2 - min (offset st) (temp st) + COLORSHIFT))"
  by (simp add: tick_def Let_def min_def)

lemma tick_offset:
  "tick st temps = Inr (st', colour) \<Longrightarrow>
     offset st' = (if temp st < offset st then temp st else offset st)"
  by (auto simp: tick_def Let_def split: sum.splits)

lemma run_offset_bound:
  "s \<in> set (run st inputs) \<Longrightarrow> offset s \<le> offset st"
proof (induction inputs arbitrary: st)
  case Nil
  then show ?case by simp
next
  case (Cons temps rest)
  show ?case
  proof (cases "tick st temps")
    case (Inl e)
    with Cons.prems show ?thesis by simp
  next
    case (Inr p)
    obtain st' colour where p: "p = (st', colour)" by (cases p)
    from Inr p have t: "tick st temps = Inr (st', colour)" by simp
    have step: "offset st' \<le> offset st"
      using tick_offset [OF t] by simp
    from Cons.prems t have "s = st' \<or> s \<in> set (run st' rest)" by simp
    then show ?thesis
      using step Cons.IH [of st'] by auto
  qed
qed

lemma run_sorted:
  "sorted_wrt (\<lambda>s s'. offset s' \<le> offset s) (st # run st inputs)"
proof (induction inputs arbitrary: st)
  case Nil
  show ?case by simp
next
  case (Cons temps rest)
  show ?case
  proof (cases "tick st temps")
    case (Inl e)
    then show ?thesis by simp
  next
    case (Inr p)
    obtain st' colour where p: "p = (st', colour)" by (cases p)
    from Inr p have t: "tick st temps = Inr (st', colour)" by simp
    have "\<forall>s \<in> set (run st (temps # rest)). offset s \<le> offset st"
      using run_offset_bound by blast
    moreover have "sorted_wrt (\<lambda>s s'. offset s' \<le> offset s) (run st (temps # rest))"
      using Cons.IH [of st'] t by simp
    ultimately show ?thesis by simp
  qed
qed

lemma run_assigned:
  "i < length (run st inputs) \<Longrightarrow>
     offset ((st # run st inputs) ! Suc i) =
       (if temp ((st # run st inputs) ! i) < offset ((st # run st inputs) ! i)
        then temp ((st # run st inputs) ! i) else offset ((st # run st inputs) ! i))"
proof (induction inputs arbitrary: st i)
  case Nil
  then show ?case by simp
next
  case (Cons temps rest)
  show ?case
  proof (cases "tick st temps")
    case (Inl e)
    with Cons.prems show ?thesis by simp
  next
    case (Inr p)
    obtain st' colour where p: "p = (st', colour)" by (cases p)
    from Inr p have t: "tick st temps = Inr (st', colour)" by simp
    then have r: "run st (temps # rest) = st' # run st' rest" by simp
    show ?thesis
    proof (cases i)
      case 0
      then show ?thesis using tick_offset [OF t] by (simp add: r del: run.simps)
    next
      case (Suc j)
      with Cons.prems r have "j < length (run st' rest)" by simp
      from Cons.IH [OF this] show ?thesis by (simp add: r Suc del: run.simps)
    qed
  qed
qed

lemma run_complete:
  "\<forall>temps \<in> set inputs. temps \<noteq> [] \<Longrightarrow> length (run st inputs) = length inputs"
  by (induction inputs arbitrary: st) (auto simp: tick_def cputemp_def Let_def)

text \<open>
  Claim C3. Along every execution of the loop, from any state and for any sequence of
  sensor reports, \<open>offset\<close> never increases: a later state never has a larger offset
  than an earlier one. Each iteration leaves \<open>offset\<close> as it was or assigns it the
  \<open>temp\<close> of the state it started from, so that the new offset never exceeds that
  \<open>temp\<close>. The execution is not cut short as long as the sensor library reports some
  group.
\<close>

theorem offset_invariant:
  "sorted_wrt (\<lambda>s s'. offset s' \<le> offset s) (st # run st inputs) \<and>
   (\<forall>i < length (run st inputs).
      offset ((st # run st inputs) ! Suc i) =
        (if temp ((st # run st inputs) ! i) < offset ((st # run st inputs) ! i)
         then temp ((st # run st inputs) ! i) else offset ((st # run st inputs) ! i)) \<and>
      offset ((st # run st inputs) ! Suc i) \<le> offset ((st # run st inputs) ! i) \<and>
      offset ((st # run st inputs) ! Suc i) \<le> temp ((st # run st inputs) ! i)) \<and>
   ((\<forall>temps \<in> set inputs. temps \<noteq> []) \<longrightarrow> length (run st inputs) = length inputs)"
proof (intro conjI allI impI)
  show "sorted_wrt (\<lambda>s s'. offset s' \<le> offset s) (st # run st inputs)"
    by (rule run_sorted)
next
  fix i assume "i < length (run st inputs)"
  note a = run_assigned [OF this]
  show "offset ((st # run st inputs) ! Suc i) =
        (if temp ((st # run st inputs) ! i) < offset ((st # run st inputs) ! i)
         then temp ((st # run st inputs) ! i) else offset ((st # run st inputs) ! i))"
    by (rule a)
  show "offset ((st # run st inputs) ! Suc i) \<le> offset ((st # run st inputs) ! i)"
    using a by (simp split: if_splits)
  show "offset ((st # run st inputs) ! Suc i) \<le> temp ((st # run st inputs) ! i)"
    using a by (simp split: if_splits)
next
  assume "\<forall>temps \<in> set inputs. temps \<noteq> []"
  then show "length (run st inputs) = length inputs" by (rule run_complete)
qed

theorem offset_invariant_witness:
  "init [(''coretemp'', [\<lparr>label = ''Core 0'', current = 45, high = None, critical = None\<rparr>])]
     = Inr \<lparr>temp = 45, offset = 20\<rparr> \<and>
   map offset (\<lparr>temp = 45, offset = 20\<rparr> # run \<lparr>temp = 45, offset = 20\<rparr>
     [[(''coretemp'', [\<lparr>label = ''Core 0'', current = 5, high = None, critical = None\<rparr>])],
      [(''coretemp'', [\<lparr>label = ''Core 0'', current = 3, high = None, critical = None\<rparr>])],
      [(''coretemp'', [\<lparr>label = ''Core 0'', current = 60, high = None, critical = None\<rparr>])]])
     = [20, 20, 20, 14] \<and>
   map temp (\<lparr>temp = 45, offset = 20\<rparr> # run \<lparr>temp = 45, offset = 20\<rparr>
     [[(''coretemp'', [\<lparr>label = ''Core 0'', current = 5, high = None, critical = None\<rparr>])],
      [(''coretemp'', [\<lparr>label = ''Core 0'', current = 3, high = None, critical = None\<rparr>])],
      [(''coretemp'', [\<lparr>label = ''Core 0'', current = 60, high = None, critical = None\<rparr>])]])
     = [45, 25, 14, 37] \<and>
   sorted_wrt (\<lambda>s s'. offset s' \<le> offset s)
     (\<lparr>temp = 45, offset = 20\<rparr> # run \<lparr>temp = 45, offset = 20\<rparr>
     [[(''coretemp'', [\<lparr>label = ''Core 0'', current = 5, high = None, critical = None\<rparr>])],
      [(''coretemp'', [\<lparr>label = ''Core 0'', current = 3, high = None, critical = None\<rparr>])],
      [(''coretemp'', [\<lparr>label = ''Core 0'', current = 60, high = None, critical = None\<rparr>])]])"
  using offset_invariant [of "\<lparr>temp = 45, offset = 20\<rparr>"
     "[[(''coretemp'', [\<lparr>label = ''Core 0'', current = 5, high = None, critical = None\<rparr>])],
      [(''coretemp'', [\<lparr>label = ''Core 0'', current = 3, high = None, critical = None\<rparr>])],
      [(''coretemp'', [\<lparr>label = ''Core 0'', current = 60, high = None, critical = None\<rparr>])]]"]
  by (simp add: init_def tick_def cputemp_def COLORSHIFT_def)

text \<open>
  Claim C4. One iteration with raw sample \<open>raw\<close>: the offset becomes the minimum of the
  old offset and the old \<open>temp\<close>, \<open>temp\<close> becomes the mean of the old \<open>temp\<close> and
  \<open>raw\<close>, and the colour is that of the new \<open>temp\<close> minus the new offset plus
  \<open>COLORSHIFT\<close>. From \<open>temp = 50\<close>, \<open>offset = 20\<close> and sample 60, with
  \<open>COLORSHIFT = 0\<close>, the new \<open>temp\<close> is 55 and the offset stays 20.
\<close>

theorem tick_sequencing:
  "cputemp temps = Inr raw \<Longrightarrow>
     tick st temps =
       Inr (\<lparr>temp = (temp st + raw) / 2, offset = min (offset st) (temp st)\<rparr>,
            ColorModel ((temp st + raw) / 2 - min (offset st) (temp st) + COLORSHIFT)) \<and>
     (temp st = 50 \<and> offset st = 20 \<and> raw = 60 \<longrightarrow>
        COLORSHIFT = 0 \<and>
        (case tick st temps of
           Inl e \<Rightarrow> False
         | Inr (st', colour) \<Rightarrow> temp st' = 55 \<and> offset st' = 20 \<and> colour = ColorModel 35))"
  by (simp add: tick_Inr COLORSHIFT_def)

theorem tick_sequencing_witness:
  "cputemp [(''coretemp'', [\<lparr>label = ''Core 0'', current = 60, high = None, critical = None\<rparr>])]
     = Inr 60 \<and>
   tick \<lparr>temp = 50, offset = 20\<rparr>
        [(''coretemp'', [\<lparr>label = ''Core 0'', current = 60, high = None, critical = None\<rparr>])]
     = Inr (\<lparr>temp = 55, offset = 20\<rparr>, ColorModel 35) \<and>
   tick \<lparr>temp = 10, offset = 20\<rparr>
        [(''coretemp'', [\<lparr>label = ''Core 0'', current = 60, high = None, critical = None\<rparr>])]
     = Inr (\<lparr>temp = 35, offset = 10\<rparr>, ColorModel 25)"
proof -
  have c: "cputemp [(''coretemp'',
      [\<lparr>label = ''Core 0'', current = 60, high = None, critical = None\<rparr>])] = Inr 60"
    by (simp add: cputemp_def)
  show ?thesis
    using c tick_sequencing [OF c, of "\<lparr>temp = 50, offset = 20\<rparr>"]
      tick_sequencing [OF c, of "\<lparr>temp = 10, offset = 20\<rparr>"]
    by (simp add: COLORSHIFT_def)
qed

end
